theory Spec2Isabelle
  imports Main "HOL-Library.AList"
begin

section \<open>The progress tracker (\<open>diagnosticCounter\<close>, extension.ts lines 196-210)\<close>

text \<open>
  \<open>diagnosticCounter\<close> keeps one local number, \<open>runningDiagnostics\<close>, and registers two
  notification handlers on the language client. The handlers call \<open>startSpinner\<close> and
  \<open>stopSpinner\<close> of the module \<open>./spinner\<close>; each call is recorded here as a value, with the
  label it is given.
\<close>

datatype spinner_call = StartSpinner string | StopSpinner string

datatype notification = BeginBuild | DiagnosticsEnd

text \<open>
  The handler of \<open>rustDocument/beginBuild\<close>:
  \<^verbatim>\<open>runningDiagnostics++; startSpinner('RLS: working');\<close>
  It takes the counter and returns the new counter with the spinner calls it made.
\<close>

definition onBeginBuild :: "int \<Rightarrow> int \<times> spinner_call list" where
  "onBeginBuild runningDiagnostics =
     (runningDiagnostics + 1, [StartSpinner ''RLS: working''])"

text \<open>
  The handler of \<open>rustDocument/diagnosticsEnd\<close>:
  \<^verbatim>\<open>runningDiagnostics--; if (runningDiagnostics <= 0) { stopSpinner('RLS: done'); }\<close>
\<close>

definition onDiagnosticsEnd :: "int \<Rightarrow> int \<times> spinner_call list" where
  "onDiagnosticsEnd runningDiagnostics =
     (let n = runningDiagnostics - 1
      in (n, if n \<le> 0 then [StopSpinner ''RLS: done''] else []))"

text \<open>
  The tracker: the counter and every spinner call made so far, oldest first.
\<close>

record tracker =
  runningDiagnostics :: int
  spinner_calls :: "spinner_call list"

definition fresh_tracker :: tracker where
  "fresh_tracker = \<lparr>runningDiagnostics = 0, spinner_calls = []\<rparr>"

fun handler :: "notification \<Rightarrow> int \<Rightarrow> int \<times> spinner_call list" where
  "handler BeginBuild = onBeginBuild"
| "handler DiagnosticsEnd = onDiagnosticsEnd"

definition deliver :: "tracker \<Rightarrow> notification \<Rightarrow> tracker" where
  "deliver t n =
     (case handler n (runningDiagnostics t) of
        (c, calls) \<Rightarrow> \<lparr>runningDiagnostics = c, spinner_calls = spinner_calls t @ calls\<rparr>)"

text \<open>Notifications are handled one at a time, in the order of receipt.\<close>

definition deliver_all :: "tracker \<Rightarrow> notification list \<Rightarrow> tracker" where
  "deliver_all = foldl deliver"

datatype indicator = Idle | Busy

text \<open>
  Modelled from the spec: the module \<open>./spinner\<close> is not among the sources. The spec's
  tracker emits "enter busy" with a fixed label on a build begin and "enter idle" with a
  fixed label on a build end; these are the calls \<open>startSpinner\<close> and \<open>stopSpinner\<close>. The
  indicator the editor shows is the one entered last, and it is idle before any call.
\<close>

definition indicator_after :: "spinner_call list \<Rightarrow> indicator" where
  "indicator_after cs =
     (if cs = [] then Idle
      else case last cs of StartSpinner l \<Rightarrow> Busy | StopSpinner l \<Rightarrow> Idle)"

definition shown :: "tracker \<Rightarrow> indicator" where
  "shown t = indicator_after (spinner_calls t)"

text \<open>
  The spec's decision from the counter alone: idle whenever the counter is at most 0.
\<close>

definition counter_idle :: "tracker \<Rightarrow> bool" where
  "counter_idle t = (runningDiagnostics t \<le> 0)"

text \<open>As many build begins as build ends, in any order.\<close>

definition balanced :: "notification list \<Rightarrow> bool" where
  "balanced ns = (count_list ns BeginBuild = count_list ns DiagnosticsEnd)"

section \<open>JavaScript values the environment code works on\<close>

text \<open>
  A value of type \<open>string | undefined\<close> is a \<open>string option\<close>. In a condition or on the left
  of \<open>||\<close> JavaScript takes \<open>undefined\<close> and the empty string as false and every other
  string as true.
\<close>

definition truthy :: "string option \<Rightarrow> bool" where
  "truthy v = (case v of None \<Rightarrow> False | Some s \<Rightarrow> s \<noteq> [])"

text \<open>\<open>v || d\<close> for a string \<open>d\<close>.\<close>

definition or_else :: "string option \<Rightarrow> string \<Rightarrow> string" where
  "or_else v d = (case v of None \<Rightarrow> d | Some s \<Rightarrow> if s \<noteq> [] then s else d)"

text \<open>The string a value becomes in a concatenation or a template.\<close>

definition js_string :: "string option \<Rightarrow> string" where
  "js_string v = (case v of None \<Rightarrow> ''undefined'' | Some s \<Rightarrow> s)"

text \<open>
  \<open>n > 0\<close> for \<open>null\<close> or a number that is never negative (an exit status): \<open>null\<close>
  compares as 0.
\<close>

definition gt0 :: "nat option \<Rightarrow> bool" where
  "gt0 n = (case n of None \<Rightarrow> False | Some k \<Rightarrow> 0 < k)"

definition LF :: char where
  "LF = CHR 0x0A"

definition CR :: char where
  "CR = CHR 0x0D"

text \<open>
  \<open>s.replace(c, rep)\<close> with a one-character string \<open>c\<close> as the pattern: JavaScript replaces
  the first occurrence only, wherever it stands, and leaves the rest of \<open>s\<close> as it is.
\<close>

fun replace :: "string \<Rightarrow> char \<Rightarrow> string \<Rightarrow> string" where
  "replace [] c rep = []"
| "replace (x # xs) c rep = (if x = c then rep @ xs else x # replace xs c rep)"




section \<open>The world the extension runs in\<close>

text \<open>
  An environment object maps variable names to strings; it is an association list in
  insertion order, read with \<open>map_of\<close> and written with \<open>AList.update\<close> (which overwrites
  a key in place and appends a new one).
\<close>

type_synonym env = "(string \<times> string) list"

text \<open>
  Objects are referred to by address: \<open>const env = process.env\<close> makes \<open>env\<close> the same
  object as \<open>process.env\<close>, not a copy, so the world holds a store of environment objects
  and the address \<open>process.env\<close> stands for.
\<close>

type_synonym ref = nat

text \<open>
  The value \<open>child_process.spawnSync\<close> returns: \<open>error\<close> is set when the child could not be
  started, \<open>status\<close> is the exit code of the child, a whole number that is never negative
  (or \<open>null\<close> when the child did not exit by itself: not started, or ended by a signal),
  \<open>stdout\<close> is a Buffer (or \<open>null\<close>). A Buffer counts as true in a condition even when it
  is empty.
\<close>

record spawn_sync_returns =
  error :: "string option"
  status :: "nat option"
  stdout :: "string option"

text \<open>A synchronous run of a command: the command, its arguments, the environment passed.\<close>

type_synonym invocation = "string \<times> string list \<times> env"

text \<open>
  The operating system outside the extension: what a run returns may depend on the runs
  made before it and on the run itself.
\<close>

type_synonym os = "invocation list \<Rightarrow> invocation \<Rightarrow> spawn_sync_returns"

text \<open>
  The three error returns of \<open>getSysroot\<close>, in the order of the source (\<open>new Error(...)\<close>
  with the messages "Error running rustc", "Error getting sysroot from rustc: exited with
  ..." and "Couldn't get sysroot from rustc: Got no ouput").
\<close>

datatype probe_error = SpawnError string | ExitError nat | EmptyOutputError

datatype console_entry =
    Info_message probe_error
  | Info_retry
  | Warn_second_try probe_error
  | Info_setting_sysroot string

text \<open>
  What \<open>makeRlsProcess\<close> starts: \<open>child_process.spawn(command, args, {cwd, env})\<close> with the
  contents of the environment object at that moment, or \<open>runRlsViaRustup(env)\<close> of the
  module \<open>./rustup\<close>.
\<close>

datatype launch =
    Spawn string "string list" "string option" env
  | RunRlsViaRustup env

record world =
  heap :: "ref \<Rightarrow> env"
  process_env :: ref
  spawned :: "invocation list"
  console :: "console_entry list"
  warnings :: "string list"
  launched :: "launch list"

definition get_var :: "world \<Rightarrow> ref \<Rightarrow> string \<Rightarrow> string option" where
  "get_var w r k = map_of (heap w r) k"

definition set_var :: "ref \<Rightarrow> string \<Rightarrow> string \<Rightarrow> world \<Rightarrow> world" where
  "set_var r k v w = w\<lparr>heap := (heap w)(r := AList.update k v (heap w r))\<rparr>"

definition console_log :: "console_entry \<Rightarrow> world \<Rightarrow> world" where
  "console_log e w = w\<lparr>console := console w @ [e]\<rparr>"

definition showWarningMessage :: "string \<Rightarrow> world \<Rightarrow> world" where
  "showWarningMessage m w = w\<lparr>warnings := warnings w @ [m]\<rparr>"

definition spawnSync ::
  "os \<Rightarrow> string \<Rightarrow> string list \<Rightarrow> env \<Rightarrow> world \<Rightarrow> spawn_sync_returns \<times> world" where
  "spawnSync os command args e w =
     (os (spawned w) (command, args, e), w\<lparr>spawned := spawned w @ [(command, args, e)]\<rparr>)"

section \<open>The sysroot prober (\<open>getSysroot\<close>, lines 28-49)\<close>

definition sysroot_command :: "string \<times> string list" where
  "sysroot_command = (''rustup'', [''run'', ''nightly'', ''rustc'', ''--print'', ''sysroot''])"

text \<open>
  Lines 33-48: what \<open>getSysroot\<close> makes of the value \<open>spawnSync\<close> returned. The three checks
  run in the order of the source; the last line is
  \<^verbatim>\<open>rustcSysroot.stdout.toString().replace('\n', '').replace('\r', '')\<close>.
\<close>

definition read_sysroot :: "spawn_sync_returns \<Rightarrow> probe_error + string" where
  "read_sysroot rustcSysroot =
     (case error rustcSysroot of
        Some e \<Rightarrow> Inl (SpawnError e)
      | None \<Rightarrow>
          if gt0 (status rustcSysroot) then
            Inl (ExitError (case status rustcSysroot of Some k \<Rightarrow> k | None \<Rightarrow> 0))
          else (case stdout rustcSysroot of
                  None \<Rightarrow> Inl EmptyOutputError
                | Some out \<Rightarrow> Inr (replace (replace out LF []) CR [])))"

definition getSysroot :: "os \<Rightarrow> ref \<Rightarrow> world \<Rightarrow> (probe_error + string) \<times> world" where
  "getSysroot os env w =
     (case spawnSync os (fst sysroot_command) (snd sysroot_command) (heap w env) w of
        (rustcSysroot, w') \<Rightarrow> (read_sysroot rustcSysroot, w'))"

text \<open>The run \<open>getSysroot\<close> makes when the environment object holds \<open>e\<close>.\<close>

definition probe_of :: "env \<Rightarrow> invocation" where
  "probe_of e = (fst sysroot_command, snd sysroot_command, e)"

text \<open>
  The spec's wording of the success value, for comparison: the output with its trailing
  newline and carriage-return characters stripped.
\<close>

definition spec_strip_trailing :: "string \<Rightarrow> string" where
  "spec_strip_trailing s = rev (dropWhile (\<lambda>c. c = LF \<or> c = CR) (rev s))"

section \<open>The environment builder (\<open>makeRlsEnv\<close>, lines 53-78)\<close>

text \<open>Line 64: \<^verbatim>\<open>`${env.HOME || '~'}/.cargo/bin:${env.PATH || ''}`\<close>.\<close>

definition extended_path :: "env \<Rightarrow> string" where
  "extended_path e =
     or_else (map_of e ''HOME'') ''~'' @ ''/.cargo/bin:'' @ or_else (map_of e ''PATH'') []"

text \<open>Lines 61-71: the retry after a first probe that failed with \<open>err\<close>.\<close>

definition retry_sysroot ::
  "os \<Rightarrow> ref \<Rightarrow> probe_error \<Rightarrow> world \<Rightarrow> (probe_error + string) \<times> world" where
  "retry_sysroot os env err w =
     (let w1 = console_log Info_retry (console_log (Info_message err) w);
          w2 = set_var env ''PATH'' (extended_path (heap w1 env)) w1
      in case getSysroot os env w2 of
           (Inl err2, w3) \<Rightarrow>
             (Inl err2,
              showWarningMessage
                ''RLS could not set RUST_SRC_PATH for Racer because it could not read the Rust sysroot.''
                (console_log (Warn_second_try err2) w3))
         | (Inr s, w3) \<Rightarrow> (Inr s, w3))"

text \<open>
  \<open>makeRlsEnv\<close> returns the object it worked on: the reference, with the world after it.
\<close>

definition makeRlsEnv :: "os \<Rightarrow> world \<Rightarrow> ref \<times> world" where
  "makeRlsEnv os w =
     (let env = process_env w in
      if truthy (get_var w (process_env w) ''RUST_SRC_PATH'') then (env, w)
      else
        case (case getSysroot os env w of
                (Inl err, w1) \<Rightarrow> retry_sysroot os env err w1
              | (Inr s, w1) \<Rightarrow> (Inr s, w1)) of
          (Inr s, w2) \<Rightarrow>
            (env, set_var env ''RUST_SRC_PATH'' (s @ ''/lib/rustlib/src/rust/src'')
                    (console_log (Info_setting_sysroot s) w2))
        | (Inl err, w2) \<Rightarrow> (env, w2))"

section \<open>The process supervisor (\<open>makeRlsProcess\<close>, lines 80-119)\<close>

text \<open>
  The fields of \<open>CONFIGURATION\<close> (module \<open>./configuration\<close>) read up to line 119. The
  handlers of lines 98-106 and 121-138 (spawn errors, the mirror of standard error, a
  rejected launch) are not part of this development.
\<close>

record configuration =
  rlsPath :: "string option"
  rlsRoot :: "string option"
  logToFile :: bool

definition spawn :: "string \<Rightarrow> string list \<Rightarrow> string option \<Rightarrow> ref \<Rightarrow> world \<Rightarrow> world" where
  "spawn command args cwd env w =
     w\<lparr>launched := launched w @ [Spawn command args cwd (heap w env)]\<rparr>"

definition runRlsViaRustup :: "ref \<Rightarrow> world \<Rightarrow> world" where
  "runRlsViaRustup env w = w\<lparr>launched := launched w @ [RunRlsViaRustup (heap w env)]\<rparr>"

text \<open>Lines 82-96: the environment is built, then the first strategy that applies is used.\<close>

definition makeRlsProcess :: "os \<Rightarrow> configuration \<Rightarrow> world \<Rightarrow> world" where
  "makeRlsProcess os cfg w =
     (case makeRlsEnv os w of
        (env, w1) \<Rightarrow>
          if truthy (rlsPath cfg) then spawn (js_string (rlsPath cfg)) [] None env w1
          else if truthy (rlsRoot cfg) then
            spawn ''rustup'' [''run'', ''nighty'', ''cargo'', ''run'', ''--release'']
              (rlsRoot cfg) env w1
          else runRlsViaRustup env w1)"

subsection \<open>Log capture (lines 108-119)\<close>











section \<open>Concrete inputs\<close>

text \<open>A child that was started and exited with a code, having written \<open>out\<close>.\<close>

definition exited :: "nat \<Rightarrow> string \<Rightarrow> spawn_sync_returns" where
  "exited code out = \<lparr>error = None, status = Some code, stdout = Some out\<rparr>"

text \<open>An operating system whose every run returns \<open>r\<close>.\<close>

definition const_os :: "spawn_sync_returns \<Rightarrow> os" where
  "const_os r history run = r"

text \<open>An operating system whose first run returns \<open>r1\<close> and every later run \<open>r2\<close>.\<close>

definition first_then :: "spawn_sync_returns \<Rightarrow> spawn_sync_returns \<Rightarrow> os" where
  "first_then r1 r2 history run = (if history = [] then r1 else r2)"

text \<open>A world at activation: \<open>process.env\<close> is the object at address 0 and holds \<open>e\<close>.\<close>

definition world_with :: "env \<Rightarrow> world" where
  "world_with e =
     \<lparr>heap = (\<lambda>r. if r = 0 then e else []), process_env = 0, spawned = [], console = [],
      warnings = [], launched = []\<rparr>"

text \<open>
  The scenario of the spec: the first probe exits with status 1 and empty output, the retry
  succeeds and prints the sysroot followed by a carriage return and a newline.
\<close>

definition scenario_os :: os where
  "scenario_os = first_then (exited 1 []) (exited 0 (''/opt/toolchain'' @ [CR, LF]))"

definition scenario_env :: env where
  "scenario_env = [(''HOME'', ''/home/u''), (''PATH'', ''/usr/bin'')]"

text \<open>Three configurations: both overrides set, the project root alone, log capture on.\<close>

definition both_cfg :: configuration where
  "both_cfg = \<lparr>rlsPath = Some ''/bin/rls'', rlsRoot = Some ''/src/rls'', logToFile = False\<rparr>"

definition root_cfg :: configuration where
  "root_cfg = \<lparr>rlsPath = None, rlsRoot = Some ''/src/rls'', logToFile = False\<rparr>"


section \<open>Facts about the tracker\<close>

lemma deliver_all_snoc: "deliver_all t (ns @ [n]) = deliver (deliver_all t ns) n"
  by (simp add: deliver_all_def)

lemma indicator_after_snoc_start: "indicator_after (cs @ [StartSpinner l]) = Busy"
  by (simp add: indicator_after_def)

lemma indicator_after_snoc_stop: "indicator_after (cs @ [StopSpinner l]) = Idle"
  by (simp add: indicator_after_def)

lemma counter_deliver_all:
  "runningDiagnostics (deliver_all t ns) =
     runningDiagnostics t + int (count_list ns BeginBuild) - int (count_list ns DiagnosticsEnd)"
proof (induction ns rule: rev_induct)
  case Nil
  then show ?case by (simp add: deliver_all_def)
next
  case (snoc n ns)
  then show ?case
    by (cases n)
       (simp_all add: deliver_all_snoc deliver_def onBeginBuild_def onDiagnosticsEnd_def Let_def)
qed

lemma shown_after_begin: "shown (deliver t BeginBuild) = Busy"
  by (simp add: shown_def deliver_def onBeginBuild_def indicator_after_snoc_start)

lemma shown_after_end:
  "shown (deliver t DiagnosticsEnd) =
     (if runningDiagnostics t \<le> 1 then Idle else shown t)"
  by (simp add: shown_def deliver_def onDiagnosticsEnd_def Let_def indicator_after_snoc_stop)

text \<open>
  C2 (as the code has it). For every counter value, the build-begin handler adds 1 to the
  counter and calls \<open>startSpinner\<close> with the fixed label "RLS: working"; the call does not
  depend on the counter.
\<close>

theorem onBeginBuild_always_starts_spinner:
  "onBeginBuild c = (c + 1, [StartSpinner ''RLS: working''])"
  by (simp add: onBeginBuild_def)

text \<open>
  C2 as stated fails: a build begin handled while the counter is 1 (already above 0) still
  makes the "enter busy" call.
\<close>

theorem onBeginBuild_busy_counterexample:
  "(0::int) < 1 \<and> onBeginBuild 1 = (2, [StartSpinner ''RLS: working''])"
  by (simp add: onBeginBuild_def)

text \<open>
  C1 (as the code has it). For every interleaving of as many build begins as build ends,
  delivered in order to a fresh tracker, the counter ends at 0, so the decision from the
  counter is idle; the indicator shown is idle exactly when the sequence is empty or its
  last notification is a build end.
\<close>

theorem balanced_ends_idle_iff_last_end:
  assumes "balanced ns"
  shows "runningDiagnostics (deliver_all fresh_tracker ns) = 0
       \<and> counter_idle (deliver_all fresh_tracker ns)
       \<and> (shown (deliver_all fresh_tracker ns) = Idle
            \<longleftrightarrow> ns = [] \<or> last ns = DiagnosticsEnd)"
proof -
  have c: "runningDiagnostics (deliver_all fresh_tracker ns) = 0"
    using assms by (simp add: counter_deliver_all balanced_def fresh_tracker_def)
  have s: "shown (deliver_all fresh_tracker ns) = Idle
             \<longleftrightarrow> ns = [] \<or> last ns = DiagnosticsEnd"
  proof (cases ns rule: rev_cases)
    case Nil
    then show ?thesis
      by (simp add: deliver_all_def shown_def fresh_tracker_def indicator_after_def)
  next
    case (snoc ms n)
    show ?thesis
    proof (cases n)
      case BeginBuild
      with snoc show ?thesis
        by (simp add: deliver_all_snoc shown_after_begin)
    next
      case DiagnosticsEnd
      from c snoc DiagnosticsEnd
      have "runningDiagnostics (deliver_all fresh_tracker ms) = 1"
        by (simp add: deliver_all_snoc deliver_def onDiagnosticsEnd_def Let_def)
      with snoc DiagnosticsEnd show ?thesis
        by (simp add: deliver_all_snoc shown_after_end)
    qed
  qed
  from c s show ?thesis by (simp add: counter_idle_def)
qed

theorem balanced_ends_idle_iff_last_end_witness:
  "balanced [BeginBuild, BeginBuild, DiagnosticsEnd, DiagnosticsEnd]
   \<and> runningDiagnostics
       (deliver_all fresh_tracker [BeginBuild, BeginBuild, DiagnosticsEnd, DiagnosticsEnd]) = 0
   \<and> shown (deliver_all fresh_tracker [BeginBuild, BeginBuild, DiagnosticsEnd, DiagnosticsEnd])
       = Idle"
proof -
  have b: "balanced [BeginBuild, BeginBuild, DiagnosticsEnd, DiagnosticsEnd]"
    by (simp add: balanced_def)
  from balanced_ends_idle_iff_last_end [OF b] b show ?thesis by simp
qed

text \<open>
  C1 as stated fails: one build end followed by one build begin is an interleaving of one
  begin and one end, and after it the last spinner call is \<open>startSpinner\<close>: the indicator
  shown is busy, with the counter back at 0.
\<close>

theorem balanced_end_then_begin_counterexample:
  "balanced [DiagnosticsEnd, BeginBuild]
   \<and> shown (deliver_all fresh_tracker [DiagnosticsEnd, BeginBuild]) = Busy
   \<and> spinner_calls (deliver_all fresh_tracker [DiagnosticsEnd, BeginBuild])
       = [StopSpinner ''RLS: done'', StartSpinner ''RLS: working'']
   \<and> runningDiagnostics (deliver_all fresh_tracker [DiagnosticsEnd, BeginBuild]) = 0"
  by (simp add: balanced_def deliver_all_def deliver_def fresh_tracker_def shown_def
        indicator_after_def onBeginBuild_def onDiagnosticsEnd_def Let_def)

section \<open>Facts about the sysroot prober\<close>

lemma replace_remove1: "replace s c [] = remove1 c s"
  by (induction s) auto

lemma getSysroot_eq:
  "getSysroot os env w =
     (read_sysroot (os (spawned w) (probe_of (heap w env))),
      w\<lparr>spawned := spawned w @ [probe_of (heap w env)]\<rparr>)"
  by (simp add: getSysroot_def spawnSync_def probe_of_def)

lemma read_sysroot_success:
  "error r = None \<Longrightarrow> \<not> gt0 (status r) \<Longrightarrow> stdout r = Some out
     \<Longrightarrow> read_sysroot r = Inr (remove1 CR (remove1 LF out))"
  by (simp add: read_sysroot_def replace_remove1)

lemma remove1_terminator:
  "LF \<notin> set p \<Longrightarrow> CR \<notin> set p \<Longrightarrow> out = p @ [LF] \<or> out = p @ [CR, LF]
     \<Longrightarrow> remove1 CR (remove1 LF out) = p"
  by (auto simp: remove1_append remove1_idem LF_def CR_def)

text \<open>
  C4 (as the code has it). For every probe that succeeds (the child was started, its
  status is not above 0 and there is a standard output), \<open>getSysroot\<close> returns the output
  with its first newline and its first carriage return removed and no other character
  altered; when the output is one line without either character, ended by a newline or by
  a carriage return and a newline, that is the line without its terminator.
\<close>

theorem getSysroot_success_value:
  assumes "os (spawned w) (probe_of (heap w env)) = r"
    and "error r = None" and "\<not> gt0 (status r)" and "stdout r = Some out"
  shows "fst (getSysroot os env w) = Inr (remove1 CR (remove1 LF out))
       \<and> (\<forall>p. LF \<notin> set p \<and> CR \<notin> set p \<and> (out = p @ [LF] \<or> out = p @ [CR, LF])
              \<longrightarrow> fst (getSysroot os env w) = Inr p)"
proof -
  have v: "fst (getSysroot os env w) = Inr (remove1 CR (remove1 LF out))"
    using assms by (simp add: getSysroot_eq read_sysroot_success)
  show ?thesis
  proof (intro conjI allI impI)
    show "fst (getSysroot os env w) = Inr (remove1 CR (remove1 LF out))" by (rule v)
  next
    fix p
    assume "LF \<notin> set p \<and> CR \<notin> set p \<and> (out = p @ [LF] \<or> out = p @ [CR, LF])"
    then have "remove1 CR (remove1 LF out) = p"
      using remove1_terminator by blast
    with v show "fst (getSysroot os env w) = Inr p" by simp
  qed
qed

theorem getSysroot_success_value_witness:
  "fst (getSysroot (const_os (exited 0 (''/opt/toolchain'' @ [CR, LF]))) 0 (world_with []))
     = Inr ''/opt/toolchain''"
  using getSysroot_success_value
    [of "const_os (exited 0 (''/opt/toolchain'' @ [CR, LF]))" "world_with []" 0
        "exited 0 (''/opt/toolchain'' @ [CR, LF])" "''/opt/toolchain'' @ [CR, LF]"]
  by (simp add: const_os_def exited_def gt0_def LF_def CR_def)

text \<open>
  C4 as stated fails. An output that ends in two newlines keeps the second one, where the
  spec's stripping removes both; and a newline inside the output is removed, joining two
  lines, where the spec's stripping leaves it.
\<close>

theorem getSysroot_trailing_counterexample:
  "fst (getSysroot (const_os (exited 0 (''/a'' @ [LF, LF]))) 0 (world_with []))
     = Inr (''/a'' @ [LF])
   \<and> spec_strip_trailing (''/a'' @ [LF, LF]) = ''/a''
   \<and> fst (getSysroot (const_os (exited 0 (''/a'' @ [LF] @ ''b'' @ [LF]))) 0 (world_with []))
     = Inr (''/ab'' @ [LF])
   \<and> spec_strip_trailing (''/a'' @ [LF] @ ''b'' @ [LF]) = ''/a'' @ [LF] @ ''b''"
  by (simp add: getSysroot_eq read_sysroot_def const_os_def exited_def gt0_def
        spec_strip_trailing_def LF_def CR_def)

text \<open>
  C7. For every probe in which the child was started and exited with a status other than
  0, \<open>getSysroot\<close> fails with the exit error carrying that status and returns no path. The
  status \<open>spawnSync\<close> reports is never negative, so the test \<open>status > 0\<close> of line 37 is
  the test for a non-zero status.
\<close>

theorem getSysroot_nonzero_status_fails:
  assumes "os (spawned w) (probe_of (heap w env)) = r"
    and "error r = None" and "status r = Some n" and "n \<noteq> 0"
  shows "fst (getSysroot os env w) = Inl (ExitError n)"
  using assms by (simp add: getSysroot_eq read_sysroot_def gt0_def)

text \<open>A child that exits with status 1, and one that exits with status 101 after output.\<close>

theorem getSysroot_nonzero_status_fails_witness:
  "fst (getSysroot (const_os (exited 1 [])) 0 (world_with [])) = Inl (ExitError 1)
   \<and> fst (getSysroot (const_os (exited 101 (''/x'' @ [LF]))) 0 (world_with []))
       = Inl (ExitError 101)"
  using getSysroot_nonzero_status_fails
          [of "const_os (exited 1 [])" "world_with []" 0 "exited 1 []" 1]
        getSysroot_nonzero_status_fails
          [of "const_os (exited 101 (''/x'' @ [LF]))" "world_with []" 0
              "exited 101 (''/x'' @ [LF])" 101]
  by (simp add: const_os_def exited_def)

section \<open>Facts about the environment builder\<close>

lemma get_var_set_var_other:
  "k' \<noteq> k \<Longrightarrow> get_var (set_var r k v w) r' k' = get_var w r' k'"
  by (simp add: get_var_def set_var_def update_conv')

lemma get_var_set_var_same: "get_var (set_var r k v w) r k = Some v"
  by (simp add: get_var_def set_var_def update_conv')

lemma retry_sysroot_eq:
  "retry_sysroot os env err w =
     (let e1 = AList.update ''PATH'' (extended_path (heap w env)) (heap w env);
          w2 = set_var env ''PATH'' (extended_path (heap w env))
                 (console_log Info_retry (console_log (Info_message err) w));
          w3 = w2\<lparr>spawned := spawned w @ [probe_of e1]\<rparr>
      in case read_sysroot (os (spawned w) (probe_of e1)) of
           Inl err2 \<Rightarrow>
             (Inl err2,
              showWarningMessage
                ''RLS could not set RUST_SRC_PATH for Racer because it could not read the Rust sysroot.''
                (console_log (Warn_second_try err2) w3))
         | Inr s \<Rightarrow> (Inr s, w3))"
  by (simp add: retry_sysroot_def getSysroot_eq Let_def console_log_def set_var_def
        split: sum.splits)

lemma makeRlsEnv_fst: "fst (makeRlsEnv os w) = process_env w"
  by (simp add: makeRlsEnv_def Let_def split: prod.splits sum.splits)

lemma retry_frame:
  assumes "retry_sysroot os env err w = (res, w')"
  shows "process_env w' = process_env w \<and> launched w' = launched w
       \<and> (\<forall>a. a \<noteq> env \<longrightarrow> heap w' a = heap w a)
       \<and> (\<forall>k. k \<noteq> ''PATH'' \<longrightarrow> get_var w' env k = get_var w env k)"
  using assms
  by (auto simp: retry_sysroot_eq Let_def console_log_def set_var_def showWarningMessage_def
        get_var_def update_conv' split: sum.splits)

lemma makeRlsEnv_frame:
  assumes "makeRlsEnv os w = (r, w')"
  shows "process_env w' = process_env w \<and> launched w' = launched w
       \<and> (\<forall>a. a \<noteq> process_env w \<longrightarrow> heap w' a = heap w a)
       \<and> (\<forall>k. k \<noteq> ''PATH'' \<and> k \<noteq> ''RUST_SRC_PATH''
              \<longrightarrow> get_var w' (process_env w) k = get_var w (process_env w) k)"
proof (cases "truthy (get_var w (process_env w) ''RUST_SRC_PATH'')")
  case True
  with assms show ?thesis by (simp add: makeRlsEnv_def)
next
  case False
  obtain res w2 where p: "(case getSysroot os (process_env w) w of
                (Inl err, w1) \<Rightarrow> retry_sysroot os (process_env w) err w1
              | (Inr s, w1) \<Rightarrow> (Inr s, w1)) = (res, w2)"
    by (cases "(case getSysroot os (process_env w) w of
                (Inl err, w1) \<Rightarrow> retry_sysroot os (process_env w) err w1
              | (Inr s, w1) \<Rightarrow> (Inr s, w1))")
  have f2: "process_env w2 = process_env w \<and> launched w2 = launched w
       \<and> (\<forall>a. a \<noteq> process_env w \<longrightarrow> heap w2 a = heap w a)
       \<and> (\<forall>k. k \<noteq> ''PATH'' \<longrightarrow> get_var w2 (process_env w) k = get_var w (process_env w) k)"
  proof (cases "read_sysroot (os (spawned w) (probe_of (heap w (process_env w))))")
    case (Inl err)
    with p have "retry_sysroot os (process_env w) err
                   (w\<lparr>spawned := spawned w @ [probe_of (heap w (process_env w))]\<rparr>) = (res, w2)"
      by (simp add: getSysroot_eq)
    from retry_frame [OF this] show ?thesis by (simp add: get_var_def)
  next
    case (Inr s)
    with p show ?thesis by (auto simp: getSysroot_eq get_var_def)
  qed
  from assms False p
  have w': "w' = (case res of
                    Inr s \<Rightarrow>
                      set_var (process_env w) ''RUST_SRC_PATH'' (s @ ''/lib/rustlib/src/rust/src'')
                        (console_log (Info_setting_sysroot s) w2)
                  | Inl err \<Rightarrow> w2)"
    by (auto simp: makeRlsEnv_def Let_def split: sum.splits)
  show ?thesis
  proof (cases res)
    case (Inl err)
    with w' f2 show ?thesis by simp
  next
    case (Inr s)
    with w' f2 show ?thesis
      by (simp add: set_var_def console_log_def get_var_def update_conv')
  qed
qed

text \<open>
  C3 (as the code has it). \<open>makeRlsEnv\<close> returns the object \<open>process.env\<close> itself, not a copy
  of it, and writes into it: of that object only the variables PATH and RUST_SRC_PATH can
  change, every other variable keeps its value, and no other object is touched.
\<close>

theorem makeRlsEnv_works_on_process_env:
  "fst (makeRlsEnv os w) = process_env w
   \<and> process_env (snd (makeRlsEnv os w)) = process_env w
   \<and> (\<forall>a. a \<noteq> process_env w \<longrightarrow> heap (snd (makeRlsEnv os w)) a = heap w a)
   \<and> (\<forall>k. k \<noteq> ''PATH'' \<and> k \<noteq> ''RUST_SRC_PATH''
          \<longrightarrow> get_var (snd (makeRlsEnv os w)) (process_env w) k = get_var w (process_env w) k)"
  using makeRlsEnv_frame [OF surjective_pairing, of os w]
  by (simp add: makeRlsEnv_fst)

lemma scenario_run:
  "makeRlsEnv scenario_os (world_with scenario_env) =
     (0, \<lparr>heap = (\<lambda>r. if r = 0
                       then [(''HOME'', ''/home/u''), (''PATH'', ''/home/u/.cargo/bin:/usr/bin''),
                             (''RUST_SRC_PATH'', ''/opt/toolchain/lib/rustlib/src/rust/src'')]
                       else []),
          process_env = 0,
          spawned = [probe_of scenario_env,
                     probe_of [(''HOME'', ''/home/u''), (''PATH'', ''/home/u/.cargo/bin:/usr/bin'')]],
          console = [Info_message (ExitError 1), Info_retry, Info_setting_sysroot ''/opt/toolchain''],
          warnings = [], launched = []\<rparr>)"
  by (simp add: makeRlsEnv_def Let_def getSysroot_eq retry_sysroot_eq world_with_def scenario_env_def
      scenario_os_def first_then_def exited_def read_sysroot_def gt0_def truthy_def get_var_def
      set_var_def console_log_def extended_path_def or_else_def LF_def CR_def fun_eq_iff)

text \<open>In the scenario the object returned is \<open>process.env\<close> and HOME keeps its value.\<close>

theorem makeRlsEnv_works_on_process_env_witness:
  "fst (makeRlsEnv scenario_os (world_with scenario_env)) = process_env (world_with scenario_env)
   \<and> get_var (snd (makeRlsEnv scenario_os (world_with scenario_env))) 0 ''HOME'' = Some ''/home/u''"
  using makeRlsEnv_works_on_process_env [of scenario_os "world_with scenario_env"]
  by (simp add: world_with_def scenario_env_def get_var_def)

text \<open>
  C3 as stated fails. In the scenario the environment returned is the ambient object, and
  after the call that object has another PATH and a new RUST_SRC_PATH.
\<close>

theorem makeRlsEnv_mutates_process_env_counterexample:
  "fst (makeRlsEnv scenario_os (world_with scenario_env)) = process_env (world_with scenario_env)
   \<and> heap (world_with scenario_env) (process_env (world_with scenario_env))
       = [(''HOME'', ''/home/u''), (''PATH'', ''/usr/bin'')]
   \<and> heap (snd (makeRlsEnv scenario_os (world_with scenario_env)))
          (process_env (snd (makeRlsEnv scenario_os (world_with scenario_env))))
       = [(''HOME'', ''/home/u''), (''PATH'', ''/home/u/.cargo/bin:/usr/bin''),
          (''RUST_SRC_PATH'', ''/opt/toolchain/lib/rustlib/src/rust/src'')]"
  by (simp add: scenario_run) (simp add: world_with_def scenario_env_def)

text \<open>
  C8 (as the code has it). For every ambient environment in which RUST_SRC_PATH is set to a
  non-empty value, \<open>makeRlsEnv\<close> returns that environment and leaves the world as it was:
  the variable keeps its value and no probe is run.
\<close>

theorem makeRlsEnv_respects_nonempty_override:
  assumes "truthy (get_var w (process_env w) ''RUST_SRC_PATH'')"
  shows "makeRlsEnv os w = (process_env w, w)
       \<and> spawned (snd (makeRlsEnv os w)) = spawned w
       \<and> get_var (snd (makeRlsEnv os w)) (fst (makeRlsEnv os w)) ''RUST_SRC_PATH''
           = get_var w (process_env w) ''RUST_SRC_PATH''"
  using assms by (simp add: makeRlsEnv_def)

theorem makeRlsEnv_respects_nonempty_override_witness:
  "truthy (get_var (world_with [(''RUST_SRC_PATH'', ''/src'')]) 0 ''RUST_SRC_PATH'')
   \<and> makeRlsEnv (const_os (exited 0 ''/x'')) (world_with [(''RUST_SRC_PATH'', ''/src'')])
       = (0, world_with [(''RUST_SRC_PATH'', ''/src'')])
   \<and> spawned (snd (makeRlsEnv (const_os (exited 0 ''/x'')) (world_with [(''RUST_SRC_PATH'', ''/src'')])))
       = []"
proof -
  have t: "truthy (get_var (world_with [(''RUST_SRC_PATH'', ''/src'')])
             (process_env (world_with [(''RUST_SRC_PATH'', ''/src'')])) ''RUST_SRC_PATH'')"
    by (simp add: truthy_def get_var_def world_with_def)
  from makeRlsEnv_respects_nonempty_override [OF t, of "const_os (exited 0 ''/x'')"] t
  show ?thesis by (simp add: world_with_def)
qed

text \<open>
  C8 as stated fails when the variable is set to the empty string: the test
  \<open>if (process.env.RUST_SRC_PATH)\<close> takes it as false, one probe is run and the variable is
  overwritten.
\<close>

theorem makeRlsEnv_empty_override_counterexample:
  "get_var (world_with [(''RUST_SRC_PATH'', [])]) 0 ''RUST_SRC_PATH'' = Some []
   \<and> spawned (snd (makeRlsEnv (const_os (exited 0 (''/x'' @ [LF]))) (world_with [(''RUST_SRC_PATH'', [])])))
       = [probe_of [(''RUST_SRC_PATH'', [])]]
   \<and> get_var (snd (makeRlsEnv (const_os (exited 0 (''/x'' @ [LF]))) (world_with [(''RUST_SRC_PATH'', [])])))
        0 ''RUST_SRC_PATH''
       = Some ''/x/lib/rustlib/src/rust/src''"
  by (simp add: makeRlsEnv_def Let_def getSysroot_eq world_with_def const_os_def exited_def
      read_sysroot_def gt0_def truthy_def get_var_def set_var_def console_log_def LF_def CR_def)

text \<open>
  C5. When RUST_SRC_PATH is not set, the first probe fails (in any of the three ways) and
  the retry, run after the first with the extended PATH, exits with status 0 and the
  output "/opt/toolchain" followed by a carriage return and a newline, the environment
  \<open>makeRlsEnv\<close> returns has RUST_SRC_PATH equal to "/opt/toolchain/lib/rustlib/src/rust/src".
\<close>

theorem makeRlsEnv_retry_scenario:
  assumes unset: "\<not> truthy (get_var w (process_env w) ''RUST_SRC_PATH'')"
    and e0: "e0 = heap w (process_env w)"
    and first_fails: "read_sysroot (os (spawned w) (probe_of e0)) = Inl err"
    and retry: "os (spawned w @ [probe_of e0])
                  (probe_of (AList.update ''PATH'' (extended_path e0) e0))
                = \<lparr>error = None, status = Some 0, stdout = Some (''/opt/toolchain'' @ [CR, LF])\<rparr>"
  shows "get_var (snd (makeRlsEnv os w)) (fst (makeRlsEnv os w)) ''RUST_SRC_PATH''
           = Some ''/opt/toolchain/lib/rustlib/src/rust/src''"
proof -
  let ?w1 = "w\<lparr>spawned := spawned w @ [probe_of e0]\<rparr>"
  have r: "read_sysroot \<lparr>error = None, status = Some 0,
                         stdout = Some (''/opt/toolchain'' @ [CR, LF])\<rparr> = Inr ''/opt/toolchain''"
    by (simp add: read_sysroot_def gt0_def LF_def CR_def)
  obtain w3 where w3: "retry_sysroot os (process_env w) err ?w1 = (Inr ''/opt/toolchain'', w3)"
    using retry r e0 by (simp add: retry_sysroot_eq Let_def)
  from unset e0 first_fails w3 show ?thesis
    by (simp add: makeRlsEnv_def Let_def getSysroot_eq get_var_set_var_same)
qed

text \<open>
  The scenario itself: status 1 and empty output first, then success; two probes are run,
  the second with the extended PATH.
\<close>

theorem makeRlsEnv_retry_scenario_witness:
  "get_var (snd (makeRlsEnv scenario_os (world_with scenario_env)))
       (fst (makeRlsEnv scenario_os (world_with scenario_env))) ''RUST_SRC_PATH''
     = Some ''/opt/toolchain/lib/rustlib/src/rust/src''
   \<and> read_sysroot (exited 1 []) = Inl (ExitError 1)
   \<and> spawned (snd (makeRlsEnv scenario_os (world_with scenario_env)))
     = [probe_of scenario_env,
        probe_of [(''HOME'', ''/home/u''), (''PATH'', ''/home/u/.cargo/bin:/usr/bin'')]]"
proof -
  have u: "\<not> truthy (get_var (world_with scenario_env) (process_env (world_with scenario_env))
                       ''RUST_SRC_PATH'')"
    by (simp add: truthy_def get_var_def world_with_def scenario_env_def)
  have e: "scenario_env = heap (world_with scenario_env) (process_env (world_with scenario_env))"
    by (simp add: world_with_def)
  have f: "read_sysroot (scenario_os (spawned (world_with scenario_env)) (probe_of scenario_env))
             = Inl (ExitError 1)"
    by (simp add: scenario_os_def first_then_def world_with_def exited_def read_sysroot_def
          gt0_def)
  have g: "scenario_os (spawned (world_with scenario_env) @ [probe_of scenario_env])
             (probe_of (AList.update ''PATH'' (extended_path scenario_env) scenario_env))
           = \<lparr>error = None, status = Some 0, stdout = Some (''/opt/toolchain'' @ [CR, LF])\<rparr>"
    by (simp add: scenario_os_def first_then_def exited_def)
  have x: "read_sysroot (exited 1 []) = Inl (ExitError 1)"
    by (simp add: exited_def read_sysroot_def gt0_def)
  from makeRlsEnv_retry_scenario [OF u e f g] x show ?thesis
    by (simp add: scenario_run)
qed

section \<open>Facts about the process supervisor\<close>

lemma makeRlsEnv_launched: "launched (snd (makeRlsEnv os w)) = launched w"
  using makeRlsEnv_frame [OF surjective_pairing, of os w] by simp

text \<open>
  C6. For every configuration with an executable path and a project root (both non-empty
  strings), \<open>makeRlsProcess\<close> starts exactly one process: the executable itself, with no
  arguments, no working directory and the contents of the environment \<open>makeRlsEnv\<close>
  built; no run through \<open>rustup\<close> and no \<open>runRlsViaRustup\<close> is added.
\<close>

theorem makeRlsProcess_explicit_path_first:
  assumes "rlsPath cfg = Some path" and "path \<noteq> []"
    and "rlsRoot cfg = Some root" and "root \<noteq> []"
  shows "launched (makeRlsProcess os cfg w)
           = launched w @ [Spawn path [] None
                             (heap (snd (makeRlsEnv os w)) (fst (makeRlsEnv os w)))]"
  using assms
  by (simp add: makeRlsProcess_def truthy_def js_string_def spawn_def makeRlsEnv_launched
        split: prod.splits)
     (metis makeRlsEnv_launched snd_conv)

theorem makeRlsProcess_explicit_path_first_witness:
  "launched (makeRlsProcess scenario_os both_cfg (world_with scenario_env))
     = [Spawn ''/bin/rls'' [] None
          [(''HOME'', ''/home/u''), (''PATH'', ''/home/u/.cargo/bin:/usr/bin''),
           (''RUST_SRC_PATH'', ''/opt/toolchain/lib/rustlib/src/rust/src'')]]"
  using makeRlsProcess_explicit_path_first
    [of both_cfg "''/bin/rls''" "''/src/rls''" scenario_os "world_with scenario_env"]
  by (simp add: both_cfg_def scenario_run) (simp add: world_with_def)

text \<open>
  C10. For every configuration with no executable path (absent or empty) and a non-empty
  project root, \<open>makeRlsProcess\<close> starts exactly one process: \<open>rustup\<close> with the arguments
  run, nighty, cargo, run, --release, the project root as working directory and the built
  environment. Every run \<open>getSysroot\<close> makes passes the channel nightly to the same
  command, and the two tokens differ.
\<close>

theorem makeRlsProcess_project_root_nighty:
  assumes "\<not> truthy (rlsPath cfg)" and "rlsRoot cfg = Some root" and "root \<noteq> []"
  shows "launched (makeRlsProcess os cfg w)
           = launched w @ [Spawn ''rustup'' [''run'', ''nighty'', ''cargo'', ''run'', ''--release'']
                             (Some root)
                             (heap (snd (makeRlsEnv os w)) (fst (makeRlsEnv os w)))]
       \<and> spawned (snd (getSysroot os env w))
           = spawned w @ [(''rustup'', [''run'', ''nightly'', ''rustc'', ''--print'', ''sysroot''],
                           heap w env)]
       \<and> ''nighty'' \<noteq> ''nightly''"
  using assms
  by (simp add: makeRlsProcess_def truthy_def spawn_def getSysroot_eq probe_of_def
        sysroot_command_def split: prod.splits)
     (metis makeRlsEnv_launched snd_conv)

theorem makeRlsProcess_project_root_nighty_witness:
  "launched (makeRlsProcess scenario_os root_cfg (world_with scenario_env))
     = [Spawn ''rustup'' [''run'', ''nighty'', ''cargo'', ''run'', ''--release'']
          (Some ''/src/rls'')
          [(''HOME'', ''/home/u''), (''PATH'', ''/home/u/.cargo/bin:/usr/bin''),
           (''RUST_SRC_PATH'', ''/opt/toolchain/lib/rustlib/src/rust/src'')]]"
  using makeRlsProcess_project_root_nighty
    [of root_cfg "''/src/rls''" scenario_os "world_with scenario_env"]
  by (simp add: root_cfg_def truthy_def scenario_run) (simp add: world_with_def)

subsection \<open>Log capture\<close>






end
